theory Spec2Isabelle
  imports Main
begin

section \<open>The pattern tree of \<open>rebuild/analyser.py\<close>\<close>

text \<open>
  Every class of \<open>analyser.py\<close> that derives from \<open>RegexNode\<close> is one constructor; its
  arguments are the fields that \<open>__init__\<close> stores, in the order of \<open>__init__\<close>.
  Characters, names, modifiers and the look-around symbol are Python strings, counts are
  Python integers. \<open>Range\<close> is a constant of HOL already, so the class \<open>Range\<close> is the
  constructor \<open>RangeNode\<close>.
\<close>

datatype RegexNode =
    EmptyNode
  | Sequence "RegexNode list"
  | Alternation "RegexNode list"
  | SingleChar string
  | OneOrMore RegexNode bool
  | ZeroOrMore RegexNode bool
  | Optional RegexNode bool
  | CapturingGroup RegexNode
  | NonCapturingGroup RegexNode
  | NamedCapturingGroup string RegexNode
  | ModeGroup string RegexNode
  | IfElseGroup string RegexNode RegexNode
  | Lookaround RegexNode string
  | AnchorStart
  | AnchorEnd
  | CharSet "RegexNode list"
  | RangeNode string string
  | RepeatExactlyN RegexNode int bool
  | RepeatAtLeastN RegexNode int bool
  | RepeatAtMostN RegexNode int bool
  | RepeatBetweenNM RegexNode int int bool

text \<open>The four subclasses of \<open>Lookaround\<close> only fix the symbol.\<close>

definition Lookahead :: "RegexNode \<Rightarrow> RegexNode" where
  "Lookahead pattern = Lookaround pattern ''=''"

definition NegativeLookahead :: "RegexNode \<Rightarrow> RegexNode" where
  "NegativeLookahead pattern = Lookaround pattern ''!''"

definition Lookbehind :: "RegexNode \<Rightarrow> RegexNode" where
  "Lookbehind pattern = Lookaround pattern ''<=''"

definition NegativeLookbehind :: "RegexNode \<Rightarrow> RegexNode" where
  "NegativeLookbehind pattern = Lookaround pattern ''<!''"

text \<open>
  The only exception the tree operations can raise: a call of \<open>RepeatExactlyN.__init__\<close>
  that leaves out its required argument \<open>n\<close> is a \<open>TypeError\<close>.
\<close>

datatype error = TypeError

subsection \<open>\<open>__bool__\<close>\<close>

text \<open>\<open>RegexNode.__bool__\<close> returns True; only \<open>EmptyNode\<close> overrides it.\<close>

fun RegexNode_bool :: "RegexNode \<Rightarrow> bool" where
  "RegexNode_bool EmptyNode = False"
| "RegexNode_bool node = True"

subsection \<open>Python's \<open>str\<close> on integers and \<open>str.join\<close>\<close>

fun str_nat :: "nat \<Rightarrow> string" where
  "str_nat n =
     (if n < 10 then [''0123456789'' ! n]
      else str_nat (n div 10) @ [''0123456789'' ! (n mod 10)])"

declare str_nat.simps [simp del]

definition str_int :: "int \<Rightarrow> string" where
  "str_int i = (if i < 0 then ''-'' @ str_nat (nat (- i)) else str_nat (nat i))"

fun join :: "string \<Rightarrow> string list \<Rightarrow> string" where
  "join sep [] = []"
| "join sep [x] = x"
| "join sep (x # y # ys) = x @ sep @ join sep (y # ys)"

subsection \<open>\<open>optimised\<close>\<close>

text \<open>
  \<open>optimised_all\<close> is the list comprehension \<open>[item.optimised() for item in items]\<close>: left to
  right, and an exception of one item ends the whole comprehension.
  \<open>filter(None, optimised)\<close> keeps the items whose \<open>__bool__\<close> is True.
  In \<open>RepeatBetweenNM.optimised\<close> the branch \<open>self.n == self.m\<close> calls
  \<open>RepeatExactlyN(optimised, is_lazy=self.is_lazy)\<close>, without the required \<open>n\<close>.
\<close>

fun optimised :: "RegexNode \<Rightarrow> error + RegexNode"
  and optimised_all :: "RegexNode list \<Rightarrow> error + RegexNode list" where
  "optimised_all [] = Inr []"
| "optimised_all (item # items) =
     (case optimised item of
        Inl e \<Rightarrow> Inl e
      | Inr x \<Rightarrow> (case optimised_all items of Inl e \<Rightarrow> Inl e | Inr xs \<Rightarrow> Inr (x # xs)))"
| "optimised EmptyNode = Inr EmptyNode"
| "optimised (Sequence items) =
     (case optimised_all items of
        Inl e \<Rightarrow> Inl e
      | Inr opt \<Rightarrow>
          (let non_empty = filter RegexNode_bool opt in
           if length non_empty = 0 then Inr EmptyNode
           else if length non_empty = 1 then Inr (non_empty ! 0)
           else Inr (Sequence non_empty)))"
| "optimised (Alternation options) =
     (case optimised_all options of Inl e \<Rightarrow> Inl e | Inr opt \<Rightarrow> Inr (Alternation opt))"
| "optimised (SingleChar char) = Inr (SingleChar char)"
| "optimised (OneOrMore pattern is_lazy) =
     (if pattern = EmptyNode then Inr EmptyNode
      else case optimised pattern of
             Inl e \<Rightarrow> Inl e | Inr opt \<Rightarrow> Inr (OneOrMore opt is_lazy))"
| "optimised (ZeroOrMore pattern is_lazy) =
     (if pattern = EmptyNode then Inr EmptyNode
      else case optimised pattern of
             Inl e \<Rightarrow> Inl e | Inr opt \<Rightarrow> Inr (ZeroOrMore opt is_lazy))"
| "optimised (Optional pattern is_lazy) =
     (if pattern = EmptyNode then Inr EmptyNode
      else case optimised pattern of
             Inl e \<Rightarrow> Inl e | Inr opt \<Rightarrow> Inr (Optional opt is_lazy))"
| "optimised (CapturingGroup pattern) =
     (case optimised pattern of Inl e \<Rightarrow> Inl e | Inr opt \<Rightarrow> Inr (CapturingGroup opt))"
| "optimised (NonCapturingGroup pattern) = optimised pattern"
| "optimised (NamedCapturingGroup name pattern) =
     (case optimised pattern of
        Inl e \<Rightarrow> Inl e | Inr opt \<Rightarrow> Inr (NamedCapturingGroup name opt))"
| "optimised (ModeGroup modifiers pattern) =
     (if pattern = EmptyNode then Inr EmptyNode
      else if length modifiers = 0 then optimised pattern
      else case optimised pattern of
             Inl e \<Rightarrow> Inl e | Inr opt \<Rightarrow> Inr (ModeGroup modifiers opt))"
| "optimised (IfElseGroup name then_node elsewise) =
     (if then_node = EmptyNode \<and> elsewise = EmptyNode then Inr EmptyNode
      else case optimised then_node of
             Inl e \<Rightarrow> Inl e
           | Inr t \<Rightarrow> (case optimised elsewise of
                        Inl e \<Rightarrow> Inl e | Inr el \<Rightarrow> Inr (IfElseGroup name t el)))"
| "optimised (Lookaround pattern symbol) =
     (if pattern = EmptyNode then Inr EmptyNode
      else case optimised pattern of
             Inl e \<Rightarrow> Inl e | Inr opt \<Rightarrow> Inr (Lookaround opt symbol))"
| "optimised AnchorStart = Inr AnchorStart"
| "optimised AnchorEnd = Inr AnchorEnd"
| "optimised (CharSet options) = Inr (CharSet options)"
| "optimised (RangeNode from_char to_char) =
     (if from_char = to_char then Inr (SingleChar from_char)
      else Inr (RangeNode from_char to_char))"
| "optimised (RepeatExactlyN pattern n is_lazy) =
     (if pattern = EmptyNode then Inr EmptyNode
      else if n = 0 then Inr EmptyNode
      else case optimised pattern of
             Inl e \<Rightarrow> Inl e
           | Inr opt \<Rightarrow> if n = 1 then Inr opt else Inr (RepeatExactlyN opt n is_lazy))"
| "optimised (RepeatAtLeastN pattern n is_lazy) =
     (if pattern = EmptyNode then Inr EmptyNode
      else case optimised pattern of
             Inl e \<Rightarrow> Inl e
           | Inr opt \<Rightarrow>
               if n = 0 then Inr (ZeroOrMore opt False)
               else if n = 1 then Inr (OneOrMore opt False)
               else Inr (RepeatAtLeastN opt n is_lazy))"
| "optimised (RepeatAtMostN pattern n is_lazy) =
     (if pattern = EmptyNode then Inr EmptyNode
      else if n = 0 then Inr EmptyNode
      else case optimised pattern of
             Inl e \<Rightarrow> Inl e
           | Inr opt \<Rightarrow> if n = 1 then Inr opt else Inr (RepeatAtMostN opt n is_lazy))"
| "optimised (RepeatBetweenNM pattern n m is_lazy) =
     (if pattern = EmptyNode then Inr EmptyNode
      else case optimised pattern of
             Inl e \<Rightarrow> Inl e
           | Inr opt \<Rightarrow>
               if n = m then Inl TypeError
               else if m = 0 then Inr EmptyNode
               else if m = 1 then Inr (Optional opt (n = 0))
               else Inr (RepeatBetweenNM opt n m is_lazy))"

subsection \<open>\<open>regex\<close>\<close>

text \<open>
  No call inside \<open>analyser.py\<close> passes \<open>is_root\<close>, so an \<open>Alternation\<close> below another node
  is rendered with the default \<open>is_root=False\<close>. \<open>Alternation_regex\<close> is the method with
  both of its parameters, for the caller that renders an \<open>Alternation\<close> directly.
\<close>

fun regex :: "RegexNode \<Rightarrow> bool \<Rightarrow> string" where
  "regex EmptyNode as_atom = ''''"
| "regex (Sequence items) as_atom =
     (let pattern = concat (map (\<lambda>item. regex item False) items) in
      if as_atom then ''(?:'' @ pattern @ '')'' else pattern)"
| "regex (Alternation options) as_atom =
     (let pattern = join ''|'' (map (\<lambda>option. regex option False) options) in
      ''(?:'' @ pattern @ '')'')"
| "regex (SingleChar char) as_atom = char"
| "regex (OneOrMore pattern is_lazy) as_atom =
     (if pattern = EmptyNode then ''''
      else let r = regex pattern True @ ''+'';
               r = (if is_lazy then r @ ''?'' else r) in
           if as_atom then ''(?:'' @ r @ '')'' else r)"
| "regex (ZeroOrMore pattern is_lazy) as_atom =
     (if pattern = EmptyNode then ''''
      else let r = regex pattern True @ ''*'';
               r = (if is_lazy then r @ ''?'' else r) in
           if as_atom then ''(?:'' @ r @ '')'' else r)"
| "regex (Optional pattern is_lazy) as_atom =
     (if pattern = EmptyNode then ''''
      else let r = regex pattern True @ ''?'';
               r = (if is_lazy then r @ ''?'' else r) in
           if as_atom then ''(?:'' @ r @ '')'' else r)"
| "regex (CapturingGroup pattern) as_atom = ''('' @ regex pattern False @ '')''"
| "regex (NonCapturingGroup pattern) as_atom = ''(?:'' @ regex pattern False @ '')''"
| "regex (NamedCapturingGroup name pattern) as_atom =
     ''(?P<'' @ name @ ''>'' @ regex pattern False @ '')''"
| "regex (ModeGroup modifiers pattern) as_atom =
     (if pattern = EmptyNode then ''''
      else if length modifiers = 0 then regex pattern as_atom
      else ''(?'' @ modifiers @ '':'' @ regex pattern False @ '')'')"
| "regex (IfElseGroup name then_node elsewise) as_atom =
     ''(?('' @ name @ '')'' @ regex then_node False @ ''|'' @ regex elsewise False @ '')''"
| "regex (Lookaround pattern symbol) as_atom =
     ''(?'' @ symbol @ regex pattern False @ '')''"
| "regex AnchorStart as_atom = ''^''"
| "regex AnchorEnd as_atom = ''$''"
| "regex (CharSet options) as_atom =
     ''['' @ concat (map (\<lambda>option. regex option False) options) @ '']''"
| "regex (RangeNode from_char to_char) as_atom = from_char @ ''-'' @ to_char"
| "regex (RepeatExactlyN pattern n is_lazy) as_atom =
     (let r = regex pattern True in
      if r = '''' then ''''
      else let r = r @ ''{'' @ str_int n @ ''}'';
               r = (if is_lazy then r @ ''?'' else r) in
           if as_atom then ''(?:'' @ r @ '')'' else r)"
| "regex (RepeatAtLeastN pattern n is_lazy) as_atom =
     (let r = regex pattern True in
      if r = '''' then ''''
      else let r = r @ ''{'' @ str_int n @ '',}'';
               r = (if is_lazy then r @ ''?'' else r) in
           if as_atom then ''(?:'' @ r @ '')'' else r)"
| "regex (RepeatAtMostN pattern n is_lazy) as_atom =
     (let r = regex pattern True in
      if r = '''' then ''''
      else let r = r @ ''{,'' @ str_int n @ ''}'';
               r = (if is_lazy then r @ ''?'' else r) in
           if as_atom then ''(?:'' @ r @ '')'' else r)"
| "regex (RepeatBetweenNM pattern n m is_lazy) as_atom =
     (let r = regex pattern True in
      if r = '''' then ''''
      else let r = r @ ''{'' @ str_int n @ '','' @ str_int m @ ''}'';
               r = (if is_lazy then r @ ''?'' else r) in
           if as_atom then ''(?:'' @ r @ '')'' else r)"

definition Alternation_regex :: "RegexNode list \<Rightarrow> bool \<Rightarrow> bool \<Rightarrow> string" where
  "Alternation_regex options as_atom is_root =
     (let pattern = join ''|'' (map (\<lambda>option. regex option False) options) in
      if is_root then pattern else ''(?:'' @ pattern @ '')'')"

subsection \<open>Trees without a \<open>RepeatBetweenNM\<close> of equal bounds\<close>

text \<open>
  \<open>no_equal_bounds node\<close>: no \<open>RepeatBetweenNM\<close> anywhere in the tree has \<open>n = m\<close>. This is a
  property of trees used to say where \<open>optimised\<close> returns; it is not a function of the
  source.
\<close>

fun no_equal_bounds :: "RegexNode \<Rightarrow> bool" where
  "no_equal_bounds (Sequence items) = list_all no_equal_bounds items"
| "no_equal_bounds (Alternation options) = list_all no_equal_bounds options"
| "no_equal_bounds (OneOrMore pattern is_lazy) = no_equal_bounds pattern"
| "no_equal_bounds (ZeroOrMore pattern is_lazy) = no_equal_bounds pattern"
| "no_equal_bounds (Optional pattern is_lazy) = no_equal_bounds pattern"
| "no_equal_bounds (CapturingGroup pattern) = no_equal_bounds pattern"
| "no_equal_bounds (NonCapturingGroup pattern) = no_equal_bounds pattern"
| "no_equal_bounds (NamedCapturingGroup name pattern) = no_equal_bounds pattern"
| "no_equal_bounds (ModeGroup modifiers pattern) = no_equal_bounds pattern"
| "no_equal_bounds (IfElseGroup name then_node elsewise) =
     (no_equal_bounds then_node \<and> no_equal_bounds elsewise)"
| "no_equal_bounds (Lookaround pattern symbol) = no_equal_bounds pattern"
| "no_equal_bounds (CharSet options) = list_all no_equal_bounds options"
| "no_equal_bounds (RepeatExactlyN pattern n is_lazy) = no_equal_bounds pattern"
| "no_equal_bounds (RepeatAtLeastN pattern n is_lazy) = no_equal_bounds pattern"
| "no_equal_bounds (RepeatAtMostN pattern n is_lazy) = no_equal_bounds pattern"
| "no_equal_bounds (RepeatBetweenNM pattern n m is_lazy) =
     (n \<noteq> m \<and> no_equal_bounds pattern)"
| "no_equal_bounds node = True"

section \<open>The builder of the example programs\<close>

text \<open>
  \<open>examples/email.py\<close> and \<open>examples/url.py\<close> import every function they call from
  \<open>rebuild.builder\<close>, a module whose source is not among the files of the repository that
  were examined. The specification gives a table of the builder's operations and makes
  the outputs that the two examples document the builder's contract. The definitions of
  this section follow the table, one definition per row, over the node classes of
  \<open>analyser.py\<close>; where the table leaves a choice, the documented outputs decide it.
  A backslash cannot stand inside a string literal, so it is written \<open>backslash\<close>.
\<close>

abbreviation backslash :: string where
  "backslash \<equiv> [CHR 0x5C]"

text \<open>
  Modelled from the spec: \<open>rebuild.builder.literally\<close> is missing. "A Sequence of Single
  Characters matching that text verbatim (escaping any characters that are syntactically
  special in the target mini-language)"; the special characters are those of the pattern
  syntax the specification lists. \<open>url.py\<close> documents \<open>.\<close> and \<open>?\<close> as escaped and \<open>:\<close>
  and \<open>/\<close> as not.
\<close>

definition special_chars :: string where
  "special_chars = ''.^$*+?{}[]'' @ backslash @ ''|()''"

definition escape :: "char \<Rightarrow> string" where
  "escape c = (if c \<in> set special_chars then backslash @ [c] else [c])"

definition literally :: "string \<Rightarrow> RegexNode" where
  "literally text = Sequence (map (\<lambda>c. SingleChar (escape c)) text)"

text \<open>
  Modelled from the spec: \<open>rebuild.builder.digit\<close> is missing. "A Character Class matching
  one decimal digit": the predefined class of the pattern syntax, which \<open>url.py\<close>
  documents as rendered without brackets under \<open>one_or_more\<close>.
\<close>

definition digit :: RegexNode where
  "digit = SingleChar (backslash @ ''d'')"

text \<open>
  Modelled from the spec: \<open>rebuild.builder.letter\<close> is missing. "A Character Class matching
  one upper- or lower-case alphabetic character".
\<close>

definition letter :: RegexNode where
  "letter = CharSet [RangeNode ''a'' ''z'', RangeNode ''A'' ''Z'']"

text \<open>
  Modelled from the spec: \<open>rebuild.builder.one_of\<close> is missing. "A Character Class matching
  any one of" the candidate characters.
\<close>

definition one_of :: "string \<Rightarrow> RegexNode" where
  "one_of chars = CharSet (map (\<lambda>c. SingleChar [c]) chars)"

text \<open>
  Modelled from the spec: \<open>rebuild.builder.anything\<close> is missing. "A node matching any
  single character (the mini-language's wildcard)".
\<close>

definition anything :: RegexNode where
  "anything = SingleChar ''.''"

text \<open>
  Modelled from the spec: \<open>rebuild.builder.either\<close> is missing. "An Alternation over" its
  sub-patterns. Both examples document options that are each one character or one
  character class as a single class holding the members of all of them, and \<open>url.py\<close>
  documents the options \<open>literally("?")\<close> and \<open>must_end()\<close> as an alternation; so options
  that all are a class, a single character or a literal of one character are merged
  into one Character Class, and any other options are an Alternation.
\<close>

fun class_members :: "RegexNode \<Rightarrow> RegexNode list option" where
  "class_members (CharSet options) = Some options"
| "class_members (SingleChar char) = Some [SingleChar char]"
| "class_members (Sequence [SingleChar char]) = Some [SingleChar char]"
| "class_members node = None"

fun merged_members :: "RegexNode list \<Rightarrow> RegexNode list option" where
  "merged_members [] = Some []"
| "merged_members (option # options) =
     (case class_members option of
        None \<Rightarrow> None
      | Some members \<Rightarrow>
          (case merged_members options of
             None \<Rightarrow> None
           | Some rest \<Rightarrow> Some (members @ rest)))"

definition either :: "RegexNode list \<Rightarrow> RegexNode" where
  "either options =
     (case merged_members options of
        Some members \<Rightarrow> CharSet members
      | None \<Rightarrow> Alternation options)"

text \<open>
  Modelled from the spec: \<open>rebuild.builder.optionally\<close> is missing. "An Optional wrapping"
  the sub-pattern, "greedy by default".
\<close>

definition optionally :: "RegexNode \<Rightarrow> RegexNode" where
  "optionally pattern = Optional pattern False"

text \<open>
  Modelled from the spec: \<open>rebuild.builder.one_or_more\<close> and
  \<open>rebuild.builder.zero_or_more\<close> are missing. "A One-Or-More wrapping" and "a
  Zero-Or-More wrapping" the sub-pattern, with "an optional greediness setting (default:
  greedy)"; a call without the setting passes \<open>True\<close> here.
\<close>

definition one_or_more :: "RegexNode \<Rightarrow> bool \<Rightarrow> RegexNode" where
  "one_or_more pattern greedy = OneOrMore pattern (\<not> greedy)"

definition zero_or_more :: "RegexNode \<Rightarrow> bool \<Rightarrow> RegexNode" where
  "zero_or_more pattern greedy = ZeroOrMore pattern (\<not> greedy)"

text \<open>
  Modelled from the spec: \<open>rebuild.builder.at_least_n_times\<close> is missing. "A
  Repeat-At-Least-N wrapping" the sub-pattern, the minimum count first.
\<close>

definition at_least_n_times :: "int \<Rightarrow> RegexNode \<Rightarrow> RegexNode" where
  "at_least_n_times n pattern = RepeatAtLeastN pattern n False"

text \<open>
  Modelled from the spec: \<open>rebuild.builder.capture_as\<close> is missing. "A Named Capturing
  Group" of the name and the sub-pattern.
\<close>

definition capture_as :: "string \<Rightarrow> RegexNode \<Rightarrow> RegexNode" where
  "capture_as name pattern = NamedCapturingGroup name pattern"

text \<open>
  Modelled from the spec: \<open>rebuild.builder.must_end\<close> is missing. "An End Anchor".
\<close>

definition must_end :: RegexNode where
  "must_end = AnchorEnd"

text \<open>
  Modelled from the spec: \<open>rebuild.builder.force_full\<close> is missing. "The sub-pattern wrapped
  with a Start Anchor before and an End Anchor after".
\<close>

definition force_full :: "RegexNode \<Rightarrow> RegexNode" where
  "force_full pattern = Sequence [AnchorStart, pattern, AnchorEnd]"

text \<open>
  Modelled from the spec: the builder's treatment of a bare text fragment is missing. It
  is "inserted verbatim rather than escaped"; \<open>SingleChar\<close> is the node that renders its
  text verbatim.
\<close>

definition raw :: "string \<Rightarrow> RegexNode" where
  "raw text = SingleChar text"

text \<open>
  Modelled from the spec: the builder's \<open>+\<close> is missing. Two patterns are "combined
  positionally into a Sequence"; "chained appends flatten into one Sequence rather than
  nesting".
\<close>

fun items_of :: "RegexNode \<Rightarrow> RegexNode list" where
  "items_of (Sequence items) = items"
| "items_of node = [node]"

definition append_pattern :: "RegexNode \<Rightarrow> RegexNode \<Rightarrow> RegexNode" where
  "append_pattern a b = Sequence (items_of a @ items_of b)"

text \<open>
  \<open>pat\<close> of \<open>examples/email.py\<close>, lines 4 to 16, with Python's left-associative \<open>+\<close>, and
  the text that the comment of its line 21 documents as generated.
\<close>

definition email_pat :: RegexNode where
  "email_pat =
     force_full
       (append_pattern
          (append_pattern
             (capture_as ''name''
                (one_or_more (either [digit, letter, one_of ''._%+-'']) True))
             (literally ''@''))
          (capture_as ''domain''
             (append_pattern
                (append_pattern
                   (one_or_more (raw (''['' @ backslash @ ''d'' @ backslash @ ''w.-]'')) True)
                   (literally ''.''))
                (at_least_n_times 2 letter))))"

definition email_generates :: string where
  "email_generates =
     ''^(?P<name>['' @ backslash @ ''da-zA-Z._%+-]+)@(?P<domain>['' @ backslash @ ''d''
       @ backslash @ ''w.-]+'' @ backslash @ ''.[a-zA-Z]{2,})$''"

text \<open>
  \<open>pat\<close> of \<open>examples/url.py\<close>, lines 7 to 29 of that file, and the text that its comment
  documents as generated.
\<close>

definition url_pat :: RegexNode where
  "url_pat =
     force_full
       (append_pattern (append_pattern (append_pattern (append_pattern
          (append_pattern (append_pattern
             (capture_as ''protocol'' (one_or_more letter True))
             (literally ''://''))
             (capture_as ''domain''
                (append_pattern
                   (append_pattern
                      (one_or_more letter True)
                      (one_or_more (either [letter, literally ''.'']) True))
                   (at_least_n_times 2 letter))))
          (optionally
             (append_pattern (literally '':'')
                (capture_as ''port'' (one_or_more digit True)))))
          (optionally
             (capture_as ''path''
                (append_pattern (literally ''/'') (zero_or_more anything False)))))
          (either [literally ''?'', must_end]))
          (optionally (capture_as ''parameters'' (zero_or_more anything True))))"

definition url_generates :: string where
  "url_generates =
     ''^(?P<protocol>[a-zA-Z]+)://(?P<domain>[a-zA-Z]+[a-zA-Z'' @ backslash
       @ ''.]+[a-zA-Z]{2,})(?::(?P<port>'' @ backslash @ ''d+))?(?P<path>/.*?)?(?:''
       @ backslash @ ''?|$)(?P<parameters>.*)?$''"

section \<open>Properties\<close>

subsection \<open>Auxiliary facts\<close>

lemma regex_Alternation_default:
  "regex (Alternation options) as_atom = Alternation_regex options as_atom False"
  by (simp add: Alternation_regex_def)

lemma RegexNode_bool_iff: "RegexNode_bool node \<longleftrightarrow> node \<noteq> EmptyNode"
  by (cases node) simp_all

text \<open>The comprehension returns exactly when every item's \<open>optimised\<close> returns.\<close>

lemma optimised_all_Inr_iff:
  "optimised_all items = Inr opt \<longleftrightarrow>
     list_all2 (\<lambda>item x. optimised item = Inr x) items opt"
proof (induction items arbitrary: opt)
  case Nil
  then show ?case by auto
next
  case (Cons item items)
  show ?case
  proof (cases "optimised item")
    case (Inl e)
    then show ?thesis by (auto simp: list_all2_Cons1)
  next
    case (Inr x)
    then show ?thesis using Cons.IH
      by (cases "optimised_all items") (auto simp: list_all2_Cons1)
  qed
qed

lemma optimised_all_returns:
  "\<forall>item \<in> set items. \<exists>x. optimised item = Inr x \<Longrightarrow> \<exists>xs. optimised_all items = Inr xs"
  by (induction items) auto

text \<open>
  The branch \<open>self.n == self.m\<close> raises for every child but \<open>EmptyNode\<close>, and it is the only
  place where \<open>optimised\<close> can raise: on a tree without such a node it returns.
\<close>

lemma RepeatBetweenNM_equal_bounds_raises:
  "pattern \<noteq> EmptyNode \<Longrightarrow> optimised (RepeatBetweenNM pattern n n is_lazy) = Inl TypeError"
  by (cases "optimised pattern") (auto intro: error.exhaust)

lemma optimised_returns:
  "no_equal_bounds node \<Longrightarrow> \<exists>x. optimised node = Inr x"
proof (induction node)
  case (Sequence items)
  then have "\<forall>item \<in> set items. \<exists>x. optimised item = Inr x"
    by (simp add: list_all_iff)
  then obtain xs where "optimised_all items = Inr xs"
    using optimised_all_returns by blast
  then show ?case by (simp add: Let_def)
next
  case (Alternation options)
  then have "\<forall>item \<in> set options. \<exists>x. optimised item = Inr x"
    by (simp add: list_all_iff)
  then obtain xs where "optimised_all options = Inr xs"
    using optimised_all_returns by blast
  then show ?case by simp
qed (auto split: sum.splits)

lemmas builder_defs =
  email_pat_def url_pat_def force_full_def append_pattern_def capture_as_def
  one_or_more_def zero_or_more_def optionally_def either_def digit_def letter_def
  one_of_def anything_def must_end_def literally_def escape_def special_chars_def
  at_least_n_times_def raw_def

text \<open>An exception of the comprehension is the exception of one of its items.\<close>

lemma optimised_all_Inl_iff:
  "optimised_all items = Inl e \<longleftrightarrow> (\<exists>item \<in> set items. optimised item = Inl e)"
proof (induction items)
  case Nil
  then show ?case by simp
next
  case (Cons item items)
  have same: "e' = e" for e' :: error
    by (cases e', cases e) simp
  show ?case
  proof (cases "optimised item")
    case (Inl e')
    then show ?thesis using same [of e'] by auto
  next
    case (Inr x)
    then show ?thesis using Cons.IH
      by (cases "optimised_all items") auto
  qed
qed

subsection \<open>Counted repeats with equal bounds\<close>

text \<open>
  C1: simplifying Repeat-Between(P, n, n) should give a tree that renders as the
  simplification of Repeat-Exactly(P, n) with the same laziness flag does. At the child
  \<open>a\<close> and the count 2, \<open>RepeatBetweenNM.optimised\<close> raises \<open>TypeError\<close> instead of
  returning a tree, while \<open>RepeatExactlyN.optimised\<close> returns the node that renders as
  \<open>a{2}\<close>.
\<close>

theorem RepeatBetweenNM_equal_counts_raises:
  "optimised (RepeatBetweenNM (SingleChar ''a'') 2 2 False) = Inl TypeError \<and>
   optimised (RepeatExactlyN (SingleChar ''a'') 2 False) =
     Inr (RepeatExactlyN (SingleChar ''a'') 2 False) \<and>
   regex (RepeatExactlyN (SingleChar ''a'') 2 False) False = ''a{2}''"
  by (simp add: str_int_def str_nat.simps)

subsection \<open>Totality\<close>

text \<open>
  C2: simplify and render should return on every well-formed tree. \<open>regex\<close> and
  \<open>RegexNode_bool\<close> have no raising branch, but \<open>optimised\<close> raises \<open>TypeError\<close> on a
  capturing group around a lazy repeat of the class \<open>[a-z]\<close> between 3 and 3 times, a
  tree that renders without error.
\<close>

theorem optimised_raises_on_well_formed_tree:
  "optimised (CapturingGroup (RepeatBetweenNM (CharSet [RangeNode ''a'' ''z'']) 3 3 True)) =
     Inl TypeError \<and>
   regex (CapturingGroup (RepeatBetweenNM (CharSet [RangeNode ''a'' ''z'']) 3 3 True)) False =
     ''([a-z]{3,3}?)''"
  by (simp add: str_int_def str_nat.simps)

subsection \<open>The email pattern\<close>


text \<open>
  The same builder definitions give the documented text of \<open>examples/url.py\<close>, where
  \<open>either\<close> is used once with mergeable options and once with an anchor among them.
\<close>

lemma url_pat_regex: "regex url_pat False = url_generates"
  by (simp add: builder_defs url_generates_def str_int_def str_nat.simps)

text \<open>
  An \<open>either\<close> that always built an \<open>Alternation\<close> could not give the documented text of
  the email pattern, whatever its options and the patterns appended after the name group
  are: \<open>OneOrMore.regex\<close> renders an \<open>Alternation\<close> inside a non-capturing group.
\<close>

lemma Alternation_never_email_generates:
  "regex (force_full (append_pattern (append_pattern
      (capture_as ''name'' (one_or_more (Alternation options) True)) x) y)) False \<noteq>
     email_generates"
  by (simp add: builder_defs email_generates_def)

subsection \<open>Quantifiers\<close>

text \<open>
  C4, as amended: a One-Or-More, Zero-Or-More or Optional node whose child is the
  \<open>EmptyNode\<close> itself renders to empty text; one whose child has a non-empty atomic render
  renders as that atomic render followed by \<open>+\<close>, \<open>*\<close> or \<open>?\<close>, plus \<open>?\<close> when lazy,
  wrapped in a non-capturing group when requested as an atom. Nothing is said of a
  child other than \<open>EmptyNode\<close> whose atomic render is empty.
\<close>

theorem quantifier_regex:
  assumes "regex pattern True \<noteq> ''''"
  shows "regex (OneOrMore EmptyNode is_lazy) as_atom = '''' \<and>
   regex (ZeroOrMore EmptyNode is_lazy) as_atom = '''' \<and>
   regex (Optional EmptyNode is_lazy) as_atom = '''' \<and>
   regex (OneOrMore pattern is_lazy) as_atom =
     (if as_atom
        then ''(?:'' @ regex pattern True @ ''+'' @ (if is_lazy then ''?'' else '''') @ '')''
        else regex pattern True @ ''+'' @ (if is_lazy then ''?'' else '''')) \<and>
   regex (ZeroOrMore pattern is_lazy) as_atom =
     (if as_atom
        then ''(?:'' @ regex pattern True @ ''*'' @ (if is_lazy then ''?'' else '''') @ '')''
        else regex pattern True @ ''*'' @ (if is_lazy then ''?'' else '''')) \<and>
   regex (Optional pattern is_lazy) as_atom =
     (if as_atom
        then ''(?:'' @ regex pattern True @ ''?'' @ (if is_lazy then ''?'' else '''') @ '')''
        else regex pattern True @ ''?'' @ (if is_lazy then ''?'' else ''''))"
proof -
  from assms have "pattern \<noteq> EmptyNode" by auto
  then show ?thesis by (simp add: Let_def)
qed

theorem quantifier_regex_witness:
  "regex (SingleChar ''a'') True \<noteq> '''' \<and> regex (Sequence []) True \<noteq> '''' \<and>
   regex (OneOrMore (SingleChar ''a'') True) True = ''(?:a+?)'' \<and>
   regex (ZeroOrMore (SingleChar ''a'') True) True = ''(?:a*?)'' \<and>
   regex (Optional (SingleChar ''a'') True) True = ''(?:a??)'' \<and>
   regex (OneOrMore (Sequence []) False) False = ''(?:)+'' \<and>
   regex (OneOrMore EmptyNode False) False = ''''"
proof -
  have a: "regex (SingleChar ''a'') True \<noteq> ''''" by simp
  have s: "regex (Sequence []) True \<noteq> ''''" by simp
  from quantifier_regex [OF a, of True True] quantifier_regex [OF s, of False False]
  show ?thesis using a s by simp
qed

text \<open>
  The claim as first stated fails at a Sequence with no children: its own render is
  empty, and each of the three quantifiers around it renders to a non-empty text.
\<close>

theorem quantifier_empty_render_counterexample:
  "regex (Sequence []) False = '''' \<and>
   regex (OneOrMore (Sequence []) False) False \<noteq> '''' \<and>
   regex (OneOrMore (Sequence []) False) False = ''(?:)+'' \<and>
   regex (ZeroOrMore (Sequence []) False) False = ''(?:)*'' \<and>
   regex (Optional (Sequence []) False) False = ''(?:)?''"
  by simp

text \<open>
  C5, as amended: One-Or-More of the Sequence of two single characters renders as
  \<open>(?:ab)+\<close> without the atom flag, and with the atom flag as that text inside one more
  non-capturing group, \<open>(?:(?:ab)+)\<close>.
\<close>

theorem OneOrMore_Sequence_regex:
  "regex (OneOrMore (Sequence [SingleChar ''a'', SingleChar ''b'']) False) True =
     ''(?:(?:ab)+)'' \<and>
   regex (OneOrMore (Sequence [SingleChar ''a'', SingleChar ''b'']) False) False =
     ''(?:ab)+''"
  by simp

theorem OneOrMore_Sequence_atom_counterexample:
  "regex (OneOrMore (Sequence [SingleChar ''a'', SingleChar ''b'']) False) True \<noteq>
     ''(?:ab)+''"
  by simp

subsection \<open>Groups and alternation\<close>

text \<open>
  C6: simplifying Non-Capturing-Group(P) is simplifying P alone: the same tree, or the
  same exception; rendering the group that was not simplified wraps the child's
  non-atomic render in \<open>(?:\<close> and \<open>)\<close>.
\<close>

theorem NonCapturingGroup_transparent:
  "optimised (NonCapturingGroup pattern) = optimised pattern \<and>
   regex (NonCapturingGroup pattern) as_atom = ''(?:'' @ regex pattern False @ '')''"
  by simp

text \<open>
  C7: simplifying an Alternation returns a tree exactly when every child's simplification
  returns, and the tree is then the Alternation of the children's simplified forms: one
  per original child, in order, none dropped, also where a simplified form is
  \<open>EmptyNode\<close>; an exception is the exception of a child. Rendering joins the children's
  renders with \<open>|\<close>, unwrapped when \<open>is_root\<close> is set and inside a non-capturing group
  otherwise, whatever \<open>as_atom\<close> is.
\<close>

theorem Alternation_optimised_regex:
  "(optimised (Alternation options) = Inr node \<longleftrightarrow>
      (\<exists>opt. list_all2 (\<lambda>item x. optimised item = Inr x) options opt \<and>
             node = Alternation opt)) \<and>
   (optimised (Alternation options) = Inl e \<longleftrightarrow>
      (\<exists>item \<in> set options. optimised item = Inl e)) \<and>
   Alternation_regex options as_atom True =
     join ''|'' (map (\<lambda>option. regex option False) options) \<and>
   Alternation_regex options as_atom False =
     ''(?:'' @ join ''|'' (map (\<lambda>option. regex option False) options) @ '')''"
proof -
  have "optimised (Alternation options) = Inr node \<longleftrightarrow>
      (\<exists>opt. optimised_all options = Inr opt \<and> node = Alternation opt)"
    by (cases "optimised_all options") auto
  moreover have "optimised (Alternation options) = Inl e \<longleftrightarrow> optimised_all options = Inl e"
    by (cases "optimised_all options") auto
  ultimately show ?thesis
    by (simp add: optimised_all_Inr_iff optimised_all_Inl_iff Alternation_regex_def)
qed

theorem Alternation_optimised_regex_witness:
  "optimised (Alternation [OneOrMore EmptyNode False, RangeNode ''a'' ''a'', SingleChar ''b'']) =
     Inr (Alternation [EmptyNode, SingleChar ''a'', SingleChar ''b'']) \<and>
   optimised (Alternation [SingleChar ''b'', RepeatBetweenNM (SingleChar ''a'') 2 2 False]) =
     Inl TypeError \<and>
   Alternation_regex [EmptyNode, SingleChar ''a'', SingleChar ''b''] False True = ''|a|b'' \<and>
   Alternation_regex [EmptyNode, SingleChar ''a'', SingleChar ''b''] False False = ''(?:|a|b)''"
proof -
  have h: "list_all2 (\<lambda>item x. optimised item = Inr x)
     [OneOrMore EmptyNode False, RangeNode ''a'' ''a'', SingleChar ''b'']
     [EmptyNode, SingleChar ''a'', SingleChar ''b'']"
    by simp
  have r: "optimised (RepeatBetweenNM (SingleChar ''a'') 2 2 False) = Inl TypeError"
    by simp
  have "optimised (Alternation [OneOrMore EmptyNode False, RangeNode ''a'' ''a'', SingleChar ''b'']) =
     Inr (Alternation [EmptyNode, SingleChar ''a'', SingleChar ''b''])"
    using h Alternation_optimised_regex
      [of "[OneOrMore EmptyNode False, RangeNode ''a'' ''a'', SingleChar ''b'']"
          "Alternation [EmptyNode, SingleChar ''a'', SingleChar ''b'']"]
    by blast
  moreover have "optimised (Alternation [SingleChar ''b'', RepeatBetweenNM (SingleChar ''a'') 2 2 False]) =
     Inl TypeError"
    using r Alternation_optimised_regex
      [of "[SingleChar ''b'', RepeatBetweenNM (SingleChar ''a'') 2 2 False]" _ TypeError]
    by simp
  moreover have "Alternation_regex [EmptyNode, SingleChar ''a'', SingleChar ''b''] False True = ''|a|b'' \<and>
   Alternation_regex [EmptyNode, SingleChar ''a'', SingleChar ''b''] False False = ''(?:|a|b)''"
    using Alternation_optimised_regex [of "[EmptyNode, SingleChar ''a'', SingleChar ''b'']" _ _ False]
    by simp
  ultimately show ?thesis by simp
qed

subsection \<open>Repeat-Between with upper bound 1\<close>

text \<open>
  C8: for every child other than \<open>EmptyNode\<close>, every lower bound \<open>n\<close> other than 1 and
  every laziness flag, simplifying Repeat-Between(P, n, 1) gives the Optional around the
  simplified child whose laziness flag is the truth value of \<open>n = 0\<close>, or the exception
  that simplifying the child raises; the flag of the repeat does not occur in the result.
\<close>

theorem RepeatBetweenNM_upper_one_Optional:
  assumes "pattern \<noteq> EmptyNode" and "n \<noteq> 1"
  shows "optimised (RepeatBetweenNM pattern n 1 is_lazy) =
     (case optimised pattern of
        Inl e \<Rightarrow> Inl e
      | Inr opt \<Rightarrow> Inr (Optional opt (n = 0)))"
  using assms by (simp split: sum.splits)

theorem RepeatBetweenNM_upper_one_Optional_witness:
  "SingleChar ''a'' \<noteq> EmptyNode \<and> (0::int) \<noteq> 1 \<and> (3::int) \<noteq> 1 \<and>
   optimised (RepeatBetweenNM (SingleChar ''a'') 0 1 False) =
     Inr (Optional (SingleChar ''a'') True) \<and>
   optimised (RepeatBetweenNM (SingleChar ''a'') 3 1 True) =
     Inr (Optional (SingleChar ''a'') False) \<and>
   optimised (RepeatBetweenNM (RepeatBetweenNM (SingleChar ''a'') 2 2 False) 0 1 False) =
     Inl TypeError"
proof -
  have p: "SingleChar ''a'' \<noteq> EmptyNode" by simp
  have q: "RepeatBetweenNM (SingleChar ''a'') 2 2 False \<noteq> EmptyNode" by simp
  have n0: "(0::int) \<noteq> 1" and n3: "(3::int) \<noteq> 1" by simp_all
  from RepeatBetweenNM_upper_one_Optional [OF p n0, of False]
       RepeatBetweenNM_upper_one_Optional [OF p n3, of True]
       RepeatBetweenNM_upper_one_Optional [OF q n0, of False]
  show ?thesis using p by simp
qed

subsection \<open>Truthiness and the Sequence filter\<close>

text \<open>
  C9: \<open>__bool__\<close> is False exactly for \<open>EmptyNode\<close>; a Sequence with no items, an
  Alternation with no options and a quantifier around \<open>EmptyNode\<close> are truthy. So, where
  \<open>opt\<close> lists the simplified form of each item of a Sequence, simplification keeps
  exactly the members of \<open>opt\<close> other than \<open>EmptyNode\<close>: none left gives \<open>EmptyNode\<close>, one
  left gives that node, more give their Sequence.
\<close>

theorem RegexNode_bool_Sequence_filter:
  assumes "list_all2 (\<lambda>item x. optimised item = Inr x) items opt"
  shows "RegexNode_bool node = (node \<noteq> EmptyNode) \<and>
     RegexNode_bool (Sequence []) \<and> RegexNode_bool (Alternation []) \<and>
     RegexNode_bool (OneOrMore EmptyNode is_lazy) \<and>
     optimised (Sequence items) =
       Inr (case filter (\<lambda>x. x \<noteq> EmptyNode) opt of
              [] \<Rightarrow> EmptyNode
            | [x] \<Rightarrow> x
            | x # y # ys \<Rightarrow> Sequence (x # y # ys))"
proof -
  have f: "filter RegexNode_bool opt = filter (\<lambda>x. x \<noteq> EmptyNode) opt"
    by (simp add: RegexNode_bool_iff cong: filter_cong)
  from assms have "optimised_all items = Inr opt"
    by (simp add: optimised_all_Inr_iff)
  then have "optimised (Sequence items) =
       Inr (case filter (\<lambda>x. x \<noteq> EmptyNode) opt of
              [] \<Rightarrow> EmptyNode
            | [x] \<Rightarrow> x
            | x # y # ys \<Rightarrow> Sequence (x # y # ys))"
    by (simp add: f Let_def split: list.splits)
  then show ?thesis
    using RegexNode_bool_iff [of node] by simp
qed

theorem RegexNode_bool_Sequence_filter_witness:
  "list_all2 (\<lambda>item x. optimised item = Inr x)
     [SingleChar ''a'', Sequence [], Optional EmptyNode True, SingleChar ''b'']
     [SingleChar ''a'', EmptyNode, EmptyNode, SingleChar ''b''] \<and>
   RegexNode_bool (Sequence []) \<and> RegexNode_bool (Optional EmptyNode True) \<and>
   optimised (Sequence [SingleChar ''a'', Sequence [], Optional EmptyNode True, SingleChar ''b'']) =
     Inr (Sequence [SingleChar ''a'', SingleChar ''b''])"
proof -
  have h: "list_all2 (\<lambda>item x. optimised item = Inr x)
     [SingleChar ''a'', Sequence [], Optional EmptyNode True, SingleChar ''b'']
     [SingleChar ''a'', EmptyNode, EmptyNode, SingleChar ''b'']"
    by simp
  from RegexNode_bool_Sequence_filter [OF h, of "Optional EmptyNode True" False]
  show ?thesis using h by simp
qed

subsection \<open>Character classes\<close>

text \<open>
  C10: simplifying a Character Class returns the same tree, whatever its members are. A
  Range with equal bounds inside a class is therefore still rendered in its range form
  after simplification, while the same Range simplified on its own becomes the Single
  Character of its bound.
\<close>

theorem CharSet_optimised_identity:
  "optimised (CharSet options) = Inr (CharSet options) \<and>
   optimised (CharSet [RangeNode c c]) = Inr (CharSet [RangeNode c c]) \<and>
   regex (CharSet [RangeNode c c]) as_atom = ''['' @ c @ ''-'' @ c @ '']'' \<and>
   regex (CharSet [RangeNode ''a'' ''a'']) as_atom = ''[a-a]'' \<and>
   optimised (RangeNode c c) = Inr (SingleChar c) \<and>
   regex (SingleChar c) as_atom = c"
  by simp

end
